theory Spec2Isabelle
  imports Main "HOL-Library.Sublist"
begin

section \<open>rssbook: RSS feed to EPUB conversion (\<^verbatim>\<open>src/rssbook/core.py\<close>)\<close>

text \<open>
  The program is Python. Strings are modelled as \<^typ>\<open>string\<close>, byte strings as
  lists of natural numbers, exceptions as values of the type \<open>error\<close>, and a function
  that may raise returns \<open>error + 'a\<close> with \<open>Inl\<close> for the exception. Only subclasses
  of Python's \<^verbatim>\<open>Exception\<close> are modelled: they are what \<^verbatim>\<open>except Exception\<close> catches.

  The libraries the program calls (lxml, requests, feedparser, trafilatura, slugify,
  hashlib, imghdr, urllib, ebooklib's writer) are not part of the repository. Each
  call into them is a field of the record \<open>env\<close>, so that every theorem below holds
  for whatever these libraries do, and a concrete \<open>env\<close> is only chosen where a
  statement is evaluated on an example.
\<close>

subsection \<open>Data\<close>

type_synonym bytes = "nat list"

datatype error =
    ParserError string
  | ValueError string
  | TypeError string
  | AttributeError string
  | RequestException string
  | OtherError string

text \<open>\<^verbatim>\<open>str(e)\<close>: the message of an exception.\<close>

fun str :: "error \<Rightarrow> string" where
  "str (ParserError m) = m"
| "str (ValueError m) = m"
| "str (TypeError m) = m"
| "str (AttributeError m) = m"
| "str (RequestException m) = m"
| "str (OtherError m) = m"

text \<open>The dataclasses \<^verbatim>\<open>FeedMetadata\<close> and \<^verbatim>\<open>FeedItem\<close>.\<close>

record FeedMetadata =
  title :: string
  link :: string
  description :: string

record FeedItem =
  item_title :: string
  item_link :: string
  item_published :: string
  item_content :: "string option"

text \<open>
  What \<^verbatim>\<open>feedparser.parse\<close> returns, as far as the program reads it: the feed's
  title, link and description and, for every entry, its title, link and publication
  date. feedparser raises \<^verbatim>\<open>AttributeError\<close> when an attribute that the feed does not
  have is read, hence the options.
\<close>

record feed_entry =
  entry_title :: "string option"
  entry_link :: "string option"
  entry_published :: "string option"

record feed_data =
  feed_title :: "string option"
  feed_link :: "string option"
  feed_description :: "string option"
  entries :: "feed_entry list"

text \<open>
  An element of an lxml tree: tag, attributes in document order, text, children and
  tail. The program reads and writes attributes only.
\<close>

datatype element =
  Element (tag: string) (attrib: "(string \<times> string) list") (elem_text: "string option")
    (children: "element list") (elem_tail: "string option")

text \<open>ebooklib's \<^verbatim>\<open>EpubHtml\<close>, \<^verbatim>\<open>EpubItem\<close> and \<^verbatim>\<open>EpubNcx\<close>, and \<^verbatim>\<open>EpubBook\<close>.\<close>

record EpubHtml =
  html_title :: string
  file_name :: string
  lang :: string
  html_content :: string
  properties :: "string list"

record EpubItem =
  uid :: string
  item_file_name :: string
  media_type :: string
  item_data :: bytes

datatype book_item = Image EpubItem | Html EpubHtml | Ncx

record EpubBook =
  book_identifier :: string
  book_title :: string
  book_language :: string
  authors :: "string list"
  metadata :: "(string \<times> string \<times> string) list"
  items :: "book_item list"
  toc :: "(string \<times> EpubHtml list) list"
  spine :: "EpubHtml list"

text \<open>
  The state of an \<^verbatim>\<open>EPUBCreator\<close>: the book, the dictionary \<^verbatim>\<open>downloaded_images\<close>
  from absolute URL to file name and image data, and the requests that
  \<^verbatim>\<open>requests.get\<close> has sent so far, each with whether it succeeded. The last field is
  the program's effect on the network; the program itself never reads it.
\<close>

record creator =
  creator_metadata :: FeedMetadata
  book :: EpubBook
  downloaded_images :: "string \<rightharpoonup> string \<times> bytes"
  requests :: "(string \<times> bool) list"

subsection \<open>The libraries\<close>

text \<open>
  \<^item> \<open>html_parse blank s\<close>: \<^verbatim>\<open>etree.parse\<close> or \<^verbatim>\<open>etree.fromstring\<close> with an
    \<^verbatim>\<open>HTMLParser\<close> (\<open>blank\<close> is its \<^verbatim>\<open>remove_blank_text\<close>), giving the root, which is
    \<^verbatim>\<open>None\<close> for a document without root element, or raising;
  \<^item> \<open>tostring doctype pretty root\<close>: \<^verbatim>\<open>etree.tostring(root, encoding='unicode',
    method='xml')\<close> with the given \<^verbatim>\<open>doctype\<close> and \<^verbatim>\<open>pretty_print\<close>;
  \<^item> \<open>http_get sent url\<close>: \<^verbatim>\<open>requests.get(url, timeout=10)\<close>, \<^verbatim>\<open>raise_for_status()\<close> and
    \<^verbatim>\<open>.content\<close>, after the requests \<open>sent\<close>: the body, or an exception for a network
    error or a non-success status;
  \<^item> \<open>urljoin\<close>, \<open>netloc\<close> (\<^verbatim>\<open>urlparse(url).netloc\<close>), \<open>md5_hexdigest\<close>
    (\<^verbatim>\<open>hashlib.md5(s.encode()).hexdigest()\<close>), \<open>imghdr_what\<close>, \<open>slugify\<close>;
  \<^item> \<open>feedparser_parse\<close>; \<open>fetch_url\<close> and \<open>extract_content\<close>, trafilatura's
    \<^verbatim>\<open>fetch_url\<close> and \<^verbatim>\<open>extract\<close> with the options the program passes; \<open>write_epub\<close>.
\<close>

record env =
  html_parse :: "bool \<Rightarrow> string \<Rightarrow> error + element option"
  tostring :: "string option \<Rightarrow> bool \<Rightarrow> element option \<Rightarrow> error + string"
  http_get :: "(string \<times> bool) list \<Rightarrow> string \<Rightarrow> error + bytes"
  urljoin :: "string \<Rightarrow> string \<Rightarrow> error + string"
  netloc :: "string \<Rightarrow> error + string"
  md5_hexdigest :: "string \<Rightarrow> string"
  imghdr_what :: "bytes \<Rightarrow> string option"
  slugify :: "string \<Rightarrow> string"
  feedparser_parse :: "string \<Rightarrow> error + feed_data"
  fetch_url :: "string \<Rightarrow> error + string option"
  extract_content :: "string option \<Rightarrow> error + string option"
  write_epub :: "string \<Rightarrow> EpubBook \<Rightarrow> error + unit"

subsection \<open>\<^verbatim>\<open>re.sub\<close> for the three patterns of \<^verbatim>\<open>convert\<close>\<close>

text \<open>
  \<^verbatim>\<open>re.sub\<close> scans the string from the left. At each position it tries to match the
  pattern there; on a match it emits the replacement and goes on after the match,
  otherwise it emits the character and goes on at the next position. A matcher
  takes the rest of the string and returns the replacement and what follows the
  match. None of the three patterns matches the empty string, so what follows a
  match is shorter than the string matched; the test on the lengths says so to the
  termination proof.
\<close>

function re_sub :: "(string \<Rightarrow> (string \<times> string) option) \<Rightarrow> string \<Rightarrow> string" where
  "re_sub m [] = []"
| "re_sub m (c # cs) =
     (case m (c # cs) of
        Some (repl, rest) \<Rightarrow>
          if length rest \<le> length cs then repl @ re_sub m rest else c # re_sub m cs
      | None \<Rightarrow> c # re_sub m cs)"
  by pat_completeness auto
termination
  by (relation "measure (\<lambda>(m, s). length s)") auto

text \<open>
  \<^verbatim>\<open><([^>]+)/>\<close> replaced by \<^verbatim>\<open><\1 />\<close>. After \<^verbatim>\<open><\<close> the class \<^verbatim>\<open>[^>]+\<close> takes every
  character up to the next \<^verbatim>\<open>>\<close>, which must exist, and gives characters back
  until \<^verbatim>\<open>/>\<close> follows: that is possible only when the character before that \<^verbatim>\<open>>\<close> is
  \<^verbatim>\<open>/\<close>, and the group, what lies between \<^verbatim>\<open><\<close> and \<^verbatim>\<open>/>\<close>, is not empty.
\<close>

definition match_self_closing :: "string \<Rightarrow> (string \<times> string) option" where
  "match_self_closing s =
     (case s of
        [] \<Rightarrow> None
      | c # cs \<Rightarrow>
          let g = takeWhile (\<lambda>x. x \<noteq> CHR ''>'') cs;
              r = dropWhile (\<lambda>x. x \<noteq> CHR ''>'') cs
          in if c = CHR ''<'' \<and> r \<noteq> [] \<and> 2 \<le> length g \<and> last g = CHR ''/''
             then Some (''<'' @ butlast g @ '' />'', tl r)
             else None)"

text \<open>
  \<^verbatim>\<open><TAG([^>]*)>\<close> replaced by \<^verbatim>\<open><div class="TAG"\1>\<close>: the string starts with \<^verbatim>\<open><TAG\<close>,
  the group is everything up to the next \<^verbatim>\<open>>\<close>, which must exist.
\<close>

definition match_open :: "string \<Rightarrow> string \<Rightarrow> (string \<times> string) option" where
  \<open>match_open t s =
     (if prefix (''<'' @ t) s
      then let s' = drop (length t + 1) s;
               g = takeWhile (\<lambda>x. x \<noteq> CHR ''>'') s';
               r = dropWhile (\<lambda>x. x \<noteq> CHR ''>'') s'
           in if r \<noteq> [] then Some (''<div class="'' @ t @ ''"'' @ g @ ''>'', tl r) else None
      else None)\<close>

text \<open>\<^verbatim>\<open></TAG>\<close> replaced by \<^verbatim>\<open></div>\<close>.\<close>

definition match_close :: "string \<Rightarrow> string \<Rightarrow> (string \<times> string) option" where
  "match_close t s =
     (if prefix (''</'' @ t @ ''>'') s
      then Some (''</div>'', drop (length t + 3) s)
      else None)"

subsection \<open>\<^verbatim>\<open>HTMLToXHTMLConverter.convert\<close>\<close>

definition doctype :: string where
  \<open>doctype = ''<!DOCTYPE html PUBLIC "-//W3C//DTD XHTML 1.1//EN" ''
     @ ''"http://www.w3.org/TR/xhtml11/DTD/xhtml11.dtd">''\<close>

definition html5_tags :: "string list" where
  "html5_tags = [''article'', ''section'', ''nav'', ''aside'', ''header'', ''footer'']"

text \<open>
  Lines 68 to 79: the rewriting of the serialised document, first the self-closing
  tags, then, for each of the six tags in turn, its opening and its closing form.
\<close>

definition replace_tag :: "string \<Rightarrow> string \<Rightarrow> string" where
  "replace_tag t s = re_sub (match_close t) (re_sub (match_open t) s)"

definition rewrite_xhtml :: "string \<Rightarrow> string" where
  "rewrite_xhtml s = foldl (\<lambda>x t. replace_tag t x) (re_sub match_self_closing s) html5_tags"

text \<open>
  The two handlers of \<^verbatim>\<open>convert\<close>: \<^verbatim>\<open>etree.ParserError\<close> first, then any other
  exception; both raise \<^verbatim>\<open>ValueError\<close>.
\<close>

fun convert_handler :: "error \<Rightarrow> error" where
  "convert_handler (ParserError m) = ValueError (''Failed to parse HTML: '' @ m)"
| "convert_handler e = ValueError (''Error converting to XHTML: '' @ str e)"

definition convert :: "env \<Rightarrow> string \<Rightarrow> error + string" where
  "convert E html_string =
     (case html_parse E True html_string of
        Inl e \<Rightarrow> Inl (convert_handler e)
      | Inr root \<Rightarrow>
          (case tostring E (Some doctype) True root of
             Inl e \<Rightarrow> Inl (convert_handler e)
           | Inr xhtml_string \<Rightarrow> Inr (rewrite_xhtml xhtml_string)))"

subsection \<open>\<^verbatim>\<open>RSSFeedParser\<close>\<close>

definition get_feed_metadata :: "env \<Rightarrow> string \<Rightarrow> error + FeedMetadata" where
  "get_feed_metadata E feed_url =
     (case feedparser_parse E feed_url of
        Inl e \<Rightarrow> Inl e
      | Inr d \<Rightarrow>
          (case (feed_title d, feed_link d, feed_description d) of
             (Some t, Some l, Some ds) \<Rightarrow> Inr \<lparr>title = t, link = l, description = ds\<rparr>
           | (None, _, _) \<Rightarrow> Inl (AttributeError ''title'')
           | (_, None, _) \<Rightarrow> Inl (AttributeError ''link'')
           | _ \<Rightarrow> Inl (AttributeError ''description'')))"

text \<open>
  \<^verbatim>\<open>entries[:limit]\<close>: the first \<open>limit\<close> entries, or all but the last \<open>- limit\<close> when
  \<open>limit\<close> is negative.
\<close>

definition slice_to :: "'a list \<Rightarrow> int \<Rightarrow> 'a list" where
  "slice_to xs n = (if 0 \<le> n then take (nat n) xs else take (length xs - nat (- n)) xs)"

text \<open>\<^verbatim>\<open>entries[:limit] if limit else entries\<close>: \<^verbatim>\<open>None\<close> and 0 are false.\<close>

definition limit_entries :: "'a list \<Rightarrow> int option \<Rightarrow> 'a list" where
  "limit_entries xs limit =
     (case limit of
        None \<Rightarrow> xs
      | Some n \<Rightarrow> if n \<noteq> 0 then slice_to xs n else xs)"

definition feed_item :: "feed_entry \<Rightarrow> error + FeedItem" where
  "feed_item e =
     (case (entry_title e, entry_link e, entry_published e) of
        (Some t, Some l, Some p) \<Rightarrow>
          Inr \<lparr>item_title = t, item_link = l, item_published = p, item_content = None\<rparr>
      | (None, _, _) \<Rightarrow> Inl (AttributeError ''title'')
      | (_, None, _) \<Rightarrow> Inl (AttributeError ''link'')
      | _ \<Rightarrow> Inl (AttributeError ''published''))"

text \<open>The list comprehension: it stops at the first entry that raises.\<close>

fun feed_items :: "feed_entry list \<Rightarrow> error + FeedItem list" where
  "feed_items [] = Inr []"
| "feed_items (e # es) =
     (case feed_item e of
        Inl x \<Rightarrow> Inl x
      | Inr i \<Rightarrow> (case feed_items es of Inl x \<Rightarrow> Inl x | Inr is \<Rightarrow> Inr (i # is)))"

definition get_feed_items :: "env \<Rightarrow> string \<Rightarrow> int option \<Rightarrow> error + FeedItem list" where
  "get_feed_items E feed_url limit =
     (case feedparser_parse E feed_url of
        Inl e \<Rightarrow> Inl e
      | Inr d \<Rightarrow> feed_items (limit_entries (entries d) limit))"

subsection \<open>\<^verbatim>\<open>EPUBCreator\<close>: the book and the images\<close>

text \<open>\<^verbatim>\<open>EpubBook.add_item\<close> appends the item to the book's list of items.\<close>

definition add_item :: "EpubBook \<Rightarrow> book_item \<Rightarrow> EpubBook" where
  "add_item b i = b\<lparr>items := items b @ [i]\<rparr>"

definition EpubBook_new :: EpubBook where
  "EpubBook_new = \<lparr>book_identifier = [], book_title = [], book_language = [], authors = [],
     metadata = [], items = [], toc = [], spine = []\<rparr>"

definition initialize_book :: "FeedMetadata \<Rightarrow> EpubBook \<Rightarrow> EpubBook" where
  "initialize_book md b =
     b\<lparr>book_identifier := ''rssbook6232146'',
       book_title := description md,
       book_language := ''en'',
       authors := authors b @ [''rssbook.py''],
       metadata := metadata b @
         [(''DC'', ''creator'', ''rssbook.py''),
          (''DC'', ''publisher'', ''RSS to EPUB Converter''),
          (''DC'', ''source'', link md)]\<rparr>"

text \<open>\<^verbatim>\<open>EPUBCreator.__init__\<close>: no image is downloaded and no request is sent yet.\<close>

definition EPUBCreator :: "FeedMetadata \<Rightarrow> creator" where
  "EPUBCreator md =
     \<lparr>creator_metadata = md, book = initialize_book md EpubBook_new,
      downloaded_images = Map.empty, requests = []\<rparr>"

definition type_map :: "(string \<times> string \<times> string) list" where
  "type_map =
     [(''jpeg'', ''.jpg'', ''image/jpeg''),
      (''jpg'', ''.jpg'', ''image/jpeg''),
      (''png'', ''.png'', ''image/png''),
      (''gif'', ''.gif'', ''image/gif''),
      (''webp'', ''.webp'', ''image/webp'')]"

definition get_image_info :: "env \<Rightarrow> bytes \<Rightarrow> string \<times> string" where
  "get_image_info E image_data =
     (case imghdr_what E image_data of
        None \<Rightarrow> (''.jpg'', ''image/jpeg'')
      | Some img_type \<Rightarrow>
          (case map_of type_map img_type of
             Some r \<Rightarrow> r
           | None \<Rightarrow> (''.jpg'', ''image/jpeg'')))"

text \<open>
  The body of the \<^verbatim>\<open>try\<close> of \<^verbatim>\<open>_download_image\<close>. It returns the exception or the
  pair it would return, and the state in which it stops. A request that was sent
  stays in \<open>requests\<close> also when it fails.
\<close>

definition download_image_try ::
  "env \<Rightarrow> string \<Rightarrow> string \<Rightarrow> creator \<Rightarrow> (error + string \<times> bytes) \<times> creator" where
  "download_image_try E img_url base_url s =
     (case urljoin E base_url img_url of
        Inl e \<Rightarrow> (Inl e, s)
      | Inr u \<Rightarrow>
          (case downloaded_images s u of
             Some r \<Rightarrow> (Inr r, s)
           | None \<Rightarrow>
               (case http_get E (requests s) u of
                  Inl e \<Rightarrow> (Inl e, s\<lparr>requests := requests s @ [(u, False)]\<rparr>)
                | Inr image_data \<Rightarrow>
                    (let (ext, mime_type) = get_image_info E image_data;
                         img_hash = ''i'' @ md5_hexdigest E u;
                         filename = ''images/'' @ img_hash @ ext;
                         img = \<lparr>uid = img_hash, item_file_name = filename,
                                media_type = mime_type, item_data = image_data\<rparr>
                     in (Inr (filename, image_data),
                         s\<lparr>requests := requests s @ [(u, True)],
                           downloaded_images := (downloaded_images s)(u \<mapsto> (filename, image_data)),
                           book := add_item (book s) (Image img)\<rparr>)))))"

text \<open>\<^verbatim>\<open>_download_image\<close>: \<^verbatim>\<open>except Exception\<close> returns \<^verbatim>\<open>None, None\<close>.\<close>

definition download_image ::
  "env \<Rightarrow> string \<Rightarrow> string \<Rightarrow> creator \<Rightarrow> (error + string option \<times> bytes option) \<times> creator" where
  "download_image E img_url base_url s =
     (case download_image_try E img_url base_url s of
        (Inl e, s') \<Rightarrow> (Inr (None, None), s')
      | (Inr (filename, image_data), s') \<Rightarrow> (Inr (Some filename, Some image_data), s'))"

text \<open>\<^verbatim>\<open>img.set(key, value)\<close>: the attribute keeps its place when it exists.\<close>

fun set_attrib :: "string \<Rightarrow> string \<Rightarrow> (string \<times> string) list \<Rightarrow> (string \<times> string) list" where
  "set_attrib k v [] = [(k, v)]"
| "set_attrib k v ((k', v') # kvs) =
     (if k' = k then (k, v) # kvs else (k', v') # set_attrib k v kvs)"

text \<open>
  The body of the loop of \<^verbatim>\<open>_process_images\<close>, on the attributes of one \<^verbatim>\<open>img\<close>
  element: \<^verbatim>\<open>not src\<close> holds for a missing and for an empty attribute,
  \<^verbatim>\<open>if local_file\<close> fails for \<^verbatim>\<open>None\<close> and for the empty string.
\<close>

definition localize_img ::
  "env \<Rightarrow> string \<Rightarrow> (string \<times> string) list \<Rightarrow> creator
     \<Rightarrow> (error + (string \<times> string) list) \<times> creator" where
  "localize_img E base_url a s =
     (case map_of a ''src'' of
        None \<Rightarrow> (Inr a, s)
      | Some src \<Rightarrow>
          if src = [] then (Inr a, s)
          else
            (case download_image E src base_url s of
               (Inl e, s') \<Rightarrow> (Inl e, s')
             | (Inr (local_file, _), s') \<Rightarrow>
                 (case local_file of
                    None \<Rightarrow> (Inr a, s')
                  | Some f \<Rightarrow> if f = [] then (Inr a, s') else (Inr (set_attrib ''src'' f a), s'))))"

text \<open>
  \<^verbatim>\<open>for img in root.xpath('//img')\<close>: the elements with tag \<^verbatim>\<open>img\<close> in document
  order. The loop changes nothing but the attributes of the element it visits, so
  it is a walk through the tree that visits an element before its children and
  the children from left to right, and that stops at the first exception.
\<close>

fun localize_tree :: "env \<Rightarrow> string \<Rightarrow> element \<Rightarrow> creator \<Rightarrow> (error + element) \<times> creator"
  and localize_forest ::
    "env \<Rightarrow> string \<Rightarrow> element list \<Rightarrow> creator \<Rightarrow> (error + element list) \<times> creator" where
  "localize_tree E base_url (Element t a tx cs tx') s =
     (case (if t = ''img'' then localize_img E base_url a s else (Inr a, s)) of
        (Inl e, s1) \<Rightarrow> (Inl e, s1)
      | (Inr a', s1) \<Rightarrow>
          (case localize_forest E base_url cs s1 of
             (Inl e, s2) \<Rightarrow> (Inl e, s2)
           | (Inr cs', s2) \<Rightarrow> (Inr (Element t a' tx cs' tx'), s2)))"
| "localize_forest E base_url [] s = (Inr [], s)"
| "localize_forest E base_url (c # cs) s =
     (case localize_tree E base_url c s of
        (Inl e, s1) \<Rightarrow> (Inl e, s1)
      | (Inr c', s1) \<Rightarrow>
          (case localize_forest E base_url cs s1 of
             (Inl e, s2) \<Rightarrow> (Inl e, s2)
           | (Inr cs', s2) \<Rightarrow> (Inr (c' # cs'), s2)))"

text \<open>
  The body of the \<^verbatim>\<open>try\<close> of \<^verbatim>\<open>_process_images\<close>. When the parser gives no root,
  \<^verbatim>\<open>root.xpath\<close> raises \<^verbatim>\<open>AttributeError\<close>.
\<close>

definition process_images_try ::
  "env \<Rightarrow> string \<Rightarrow> string \<Rightarrow> creator \<Rightarrow> (error + string) \<times> creator" where
  "process_images_try E content base_url s =
     (case html_parse E False content of
        Inl e \<Rightarrow> (Inl e, s)
      | Inr None \<Rightarrow> (Inl (AttributeError ''xpath''), s)
      | Inr (Some root) \<Rightarrow>
          (case localize_tree E base_url root s of
             (Inl e, s') \<Rightarrow> (Inl e, s')
           | (Inr root', s') \<Rightarrow>
               (case tostring E None False (Some root') of
                  Inl e \<Rightarrow> (Inl e, s')
                | Inr x \<Rightarrow> (Inr x, s'))))"

text \<open>\<^verbatim>\<open>_process_images\<close>: \<^verbatim>\<open>except Exception\<close> returns the content it was given.\<close>

definition process_images ::
  "env \<Rightarrow> string \<Rightarrow> string \<Rightarrow> creator \<Rightarrow> (error + string) \<times> creator" where
  "process_images E content base_url s =
     (case process_images_try E content base_url s of
        (Inl e, s') \<Rightarrow> (Inr content, s')
      | (Inr x, s') \<Rightarrow> (Inr x, s'))"

subsection \<open>\<^verbatim>\<open>EPUBCreator.create_chapter\<close>\<close>

text \<open>\<^verbatim>\<open>str.replace(old, new)\<close>, for a string \<open>old\<close> that is not empty.\<close>

definition match_literal :: "string \<Rightarrow> string \<Rightarrow> string \<Rightarrow> (string \<times> string) option" where
  "match_literal old new s =
     (if old \<noteq> [] \<and> prefix old s then Some (new, drop (length old) s) else None)"

definition replace :: "string \<Rightarrow> string \<Rightarrow> string \<Rightarrow> string" where
  "replace s old new = re_sub (match_literal old new) s"

text \<open>
  \<^verbatim>\<open>\s\<close> and \<^verbatim>\<open>\w\<close> of \<^verbatim>\<open>re\<close> on the code points below 256, and the lower case of a
  character for \<^verbatim>\<open>re.IGNORECASE\<close>: below 256, only the letters \<^verbatim>\<open>A\<close> to \<^verbatim>\<open>Z\<close> match
  the letters of the pattern besides these letters themselves.
\<close>

definition is_space :: "char \<Rightarrow> bool" where
  "is_space c = (of_char c \<in> {9, 10, 11, 12, 13, 28, 29, 30, 31, 32, 133, 160 :: nat})"

definition is_word :: "char \<Rightarrow> bool" where
  "is_word c =
     (let n = of_char c :: nat
      in (48 \<le> n \<and> n \<le> 57) \<or> (65 \<le> n \<and> n \<le> 90) \<or> n = 95 \<or> (97 \<le> n \<and> n \<le> 122)
         \<or> n \<in> {170, 178, 179, 181, 185, 186, 188, 189, 190}
         \<or> (192 \<le> n \<and> n \<le> 214) \<or> (216 \<le> n \<and> n \<le> 246) \<or> 248 \<le> n)"

definition lower :: "char \<Rightarrow> char" where
  "lower c =
     (let n = of_char c :: nat in if 65 \<le> n \<and> n \<le> 90 then char_of (n + 32) else c)"

definition block_tags :: "string list" where
  "block_tags = [''div'', ''article'', ''section'', ''main'', ''aside'', ''header'', ''footer'',
     ''nav'', ''p'']"

text \<open>
  \<^verbatim>\<open>re.match(r'^\s*<(div|article|section|main|aside|header|footer|nav|p)\b', content,
  re.IGNORECASE)\<close>: after the leading white space comes \<^verbatim>\<open><\<close>, then one of the names,
  and the name ends there: the string ends or a character that is not of a word
  follows.
\<close>

definition starts_with_block :: "string \<Rightarrow> bool" where
  "starts_with_block content =
     (case dropWhile is_space content of
        [] \<Rightarrow> False
      | c # r \<Rightarrow>
          c = CHR ''<'' \<and>
          list_ex (\<lambda>t. map lower (take (length t) r) = t \<and>
                     (case drop (length t) r of [] \<Rightarrow> True | d # _ \<Rightarrow> \<not> is_word d))
            block_tags)"

definition placeholder :: string where
  "placeholder = ''<p>Failed to extract content.</p>''"

definition header_box :: "FeedItem \<Rightarrow> string" where
  \<open>header_box item =
     ''\<newline>        <div class="header">\<newline>            <h1>'' @ item_title item @ ''</h1>\<newline>''
     @ ''            <p><a href="'' @ item_link item @ ''">'' @ item_link item @ ''</a></p>\<newline>''
     @ ''        </div>\<newline>        ''\<close>

text \<open>The content before it is converted: lines 302 to 318.\<close>

definition chapter_markup :: "FeedItem \<Rightarrow> string option \<Rightarrow> string" where
  \<open>chapter_markup item extracted =
     (let content = (case extracted of None \<Rightarrow> placeholder | Some c \<Rightarrow> c);
          content = replace content ''<graphic'' ''<img'';
          content = (if \<not> starts_with_block content
                     then ''<div class="chapter-content">'' @ content @ ''</div>''
                     else content)
      in header_box item @ content)\<close>

definition create_chapter :: "env \<Rightarrow> FeedItem \<Rightarrow> creator \<Rightarrow> (error + EpubHtml) \<times> creator" where
  "create_chapter E item s =
     (case fetch_url E (item_link item) of
        Inl e \<Rightarrow> (Inl e, s)
      | Inr downloaded \<Rightarrow>
          (case extract_content E downloaded of
             Inl e \<Rightarrow> (Inl e, s)
           | Inr extracted \<Rightarrow>
               (case convert E (chapter_markup item extracted) of
                  Inl e \<Rightarrow> (Inl e, s)
                | Inr converted \<Rightarrow>
                    (case process_images E converted (item_link item) s of
                       (Inl e, s') \<Rightarrow> (Inl e, s')
                     | (Inr localized, s') \<Rightarrow>
                         (Inr \<lparr>html_title = item_title item,
                                file_name = slugify E (item_title item) @ ''.xhtml'',
                                lang = ''en'',
                                html_content = localized,
                                properties = []\<rparr>, s')))))"

subsection \<open>The cover, \<^verbatim>\<open>save\<close> and \<^verbatim>\<open>create_epub\<close>\<close>

definition cover_content_icon :: "string \<Rightarrow> FeedMetadata \<Rightarrow> string" where
  \<open>cover_content_icon icon_filename md =
     ''\<newline>            <div style="text-align: center; padding: 20px;">\<newline>''
     @ ''                <div style="margin: 50px auto;">\<newline>''
     @ ''                    <img src="'' @ icon_filename
     @ ''" style="max-width: 200px; display: block; margin: 0 auto;" />\<newline>''
     @ ''                </div>\<newline>''
     @ ''                <h1 style="font-size: 24px; margin: 20px 0;">'' @ title md @ ''</h1>\<newline>''
     @ ''                <p style="font-size: 16px; color: #666; margin: 10px 0;">'' @ description md
     @ ''</p>\<newline>''
     @ ''            </div>\<newline>            ''\<close>

definition cover_content_text :: "FeedMetadata \<Rightarrow> string" where
  \<open>cover_content_text md =
     ''\<newline>            <div style="text-align: center; padding: 20px;">\<newline>''
     @ ''                <h1 style="font-size: 24px; margin: 20px 0;">'' @ title md @ ''</h1>\<newline>''
     @ ''                <p style="font-size: 16px; color: #666; margin: 10px 0;">'' @ description md
     @ ''</p>\<newline>''
     @ ''            </div>\<newline>            ''\<close>

definition cover_page :: "string \<Rightarrow> EpubHtml" where
  "cover_page c =
     \<lparr>html_title = ''Cover'', file_name = ''cover.xhtml'', lang = ''en'', html_content = c,
      properties = []\<rparr>"

text \<open>The body of the \<^verbatim>\<open>try\<close> of \<^verbatim>\<open>_create_cover_page\<close>.\<close>

definition create_cover_page_try :: "env \<Rightarrow> creator \<Rightarrow> (error + EpubHtml) \<times> creator" where
  "create_cover_page_try E s =
     (case netloc E (link (creator_metadata s)) of
        Inl e \<Rightarrow> (Inl e, s)
      | Inr feed_domain \<Rightarrow>
          (let g_favicon_url = ''https://www.google.com/s2/favicons?domain='' @ feed_domain @ ''&sz=256''
           in case http_get E (requests s) g_favicon_url of
                Inl e \<Rightarrow> (Inl e, s\<lparr>requests := requests s @ [(g_favicon_url, False)]\<rparr>)
              | Inr icon_data \<Rightarrow>
                  (let (ext, mime_type) = get_image_info E icon_data;
                       icon_hash = ''cover_icon'' @ md5_hexdigest E g_favicon_url;
                       icon_filename = ''images/'' @ icon_hash @ ext;
                       icon_item = \<lparr>uid = icon_hash, item_file_name = icon_filename,
                                     media_type = mime_type, item_data = icon_data\<rparr>;
                       s' = s\<lparr>requests := requests s @ [(g_favicon_url, True)],
                              book := add_item (book s) (Image icon_item)\<rparr>
                   in case convert E (cover_content_icon icon_filename (creator_metadata s)) of
                        Inl e \<Rightarrow> (Inl e, s')
                      | Inr c \<Rightarrow> (Inr (cover_page c), s'))))"

text \<open>
  \<^verbatim>\<open>_create_cover_page\<close>: the handler builds the cover without icon; an exception of
  its own \<^verbatim>\<open>convert\<close> is not caught.
\<close>

definition create_cover_page :: "env \<Rightarrow> creator \<Rightarrow> (error + EpubHtml) \<times> creator" where
  "create_cover_page E s =
     (case create_cover_page_try E s of
        (Inl e, s') \<Rightarrow>
          (case convert E (cover_content_text (creator_metadata s')) of
             Inl e' \<Rightarrow> (Inl e', s')
           | Inr c \<Rightarrow> (Inr (cover_page c), s'))
      | (Inr cover, s') \<Rightarrow> (Inr cover, s'))"

definition save :: "env \<Rightarrow> EpubHtml list \<Rightarrow> string \<Rightarrow> creator \<Rightarrow> (error + unit) \<times> creator" where
  "save E chapters output_path s =
     (case create_cover_page E s of
        (Inl e, s1) \<Rightarrow> (Inl e, s1)
      | (Inr cover, s1) \<Rightarrow>
          (let b = add_item (book s1) (Html cover);
               b = foldl (\<lambda>b chapter. add_item b (Html chapter)) b chapters;
               b = b\<lparr>toc := [(''Items'', chapters)]\<rparr>;
               b = add_item b Ncx;
               b = b\<lparr>spine := [cover] @ chapters\<rparr>;
               s2 = s1\<lparr>book := b\<rparr>
           in case write_epub E output_path b of
                Inl e \<Rightarrow> (Inl e, s2)
              | Inr _ \<Rightarrow> (Inr (), s2)))"

text \<open>The loop of \<^verbatim>\<open>create_epub\<close> over the items: it stops at the first exception.\<close>

fun create_chapters :: "env \<Rightarrow> FeedItem list \<Rightarrow> creator \<Rightarrow> (error + EpubHtml list) \<times> creator" where
  "create_chapters E [] s = (Inr [], s)"
| "create_chapters E (item # its) s =
     (case create_chapter E item s of
        (Inl e, s1) \<Rightarrow> (Inl e, s1)
      | (Inr chapter, s1) \<Rightarrow>
          (case create_chapters E its s1 of
             (Inl e, s2) \<Rightarrow> (Inl e, s2)
           | (Inr chapters, s2) \<Rightarrow> (Inr (chapter # chapters), s2)))"

text \<open>
  \<^verbatim>\<open>create_epub\<close>: its handler raises the exception again. Besides the path the
  model returns the creator, whose book is the document that was written.
\<close>

definition create_epub :: "env \<Rightarrow> string \<Rightarrow> int \<Rightarrow> error + string \<times> creator" where
  "create_epub E feed_url item_limit =
     (case get_feed_metadata E feed_url of
        Inl e \<Rightarrow> Inl e
      | Inr md \<Rightarrow>
          (case get_feed_items E feed_url (Some item_limit) of
             Inl e \<Rightarrow> Inl e
           | Inr its \<Rightarrow>
               (case create_chapters E its (EPUBCreator md) of
                  (Inl e, _) \<Rightarrow> Inl e
                | (Inr chapters, s) \<Rightarrow>
                    (let output_path = slugify E (title md) @ ''.epub''
                     in case save E chapters output_path s of
                          (Inl e, _) \<Rightarrow> Inl e
                        | (Inr _, s') \<Rightarrow> Inr (output_path, s')))))"

subsection \<open>Notions used in the statements\<close>

text \<open>The feed entry an item was made from.\<close>

definition entry_of :: "FeedItem \<Rightarrow> feed_entry" where
  "entry_of i =
     \<lparr>entry_title = Some (item_title i), entry_link = Some (item_link i),
      entry_published = Some (item_published i)\<rparr>"

text \<open>The URLs that were fetched with success, in the order of the requests.\<close>

definition fetched :: "creator \<Rightarrow> string list" where
  "fetched s = map fst (filter snd (requests s))"

text \<open>The image items of a book, in the order in which they were added.\<close>

definition images :: "EpubBook \<Rightarrow> EpubItem list" where
  "images b = concat (map (\<lambda>i. case i of Image x \<Rightarrow> [x] | _ \<Rightarrow> []) (items b))"

definition cached_name :: "creator \<Rightarrow> string \<Rightarrow> string" where
  "cached_name s u = (case downloaded_images s u of Some (f, d) \<Rightarrow> f | None \<Rightarrow> [])"

text \<open>
  The state of the images while the chapters are built: no URL was fetched with
  success twice, the URLs in \<^verbatim>\<open>downloaded_images\<close> are those fetched with success,
  the book holds one image item for each of them, under the file name that
  \<^verbatim>\<open>downloaded_images\<close> has for it, and no file name is empty.
\<close>

definition cache_ok :: "creator \<Rightarrow> bool" where
  "cache_ok s \<longleftrightarrow>
     distinct (fetched s) \<and>
     set (fetched s) = dom (downloaded_images s) \<and>
     map item_file_name (images (book s)) = map (cached_name s) (fetched s) \<and>
     (\<forall>u \<in> dom (downloaded_images s). cached_name s u \<noteq> [])"

text \<open>
  Calls of \<^verbatim>\<open>_download_image\<close> one after the other, each with its image URL and its
  base URL: what happens to the state between two image references of one build.
\<close>

fun image_downloads :: "env \<Rightarrow> (string \<times> string) list \<Rightarrow> creator \<Rightarrow> creator" where
  "image_downloads E [] s = s"
| "image_downloads E ((img_url, base_url) # calls) s =
     image_downloads E calls (snd (download_image E img_url base_url s))"

subsection \<open>An environment for the examples\<close>

text \<open>
  A feed of three entries, two of them with the same title. Nothing can be
  extracted from the articles. The parser gives the empty string a document
  without root element, which the serialiser refuses with \<^verbatim>\<open>TypeError\<close>, as lxml
  does; every other string is parsed to one fixed document with four images, and
  \<open>render\<close> writes a document without any layout. One image can be fetched, every
  other request fails.
\<close>

definition example_entry :: "string \<Rightarrow> string \<Rightarrow> feed_entry" where
  "example_entry t l = \<lparr>entry_title = Some t, entry_link = Some l, entry_published = Some ''2024''\<rparr>"

definition example_feed :: feed_data where
  "example_feed =
     \<lparr>feed_title = Some ''Field Notes'', feed_link = Some ''http://notes.example/'',
      feed_description = Some ''Notes from the field'',
      entries = [example_entry ''News'' ''http://notes.example/1'',
                 example_entry ''News'' ''http://notes.example/2'',
                 example_entry ''Other'' ''http://notes.example/3'']\<rparr>"

definition example_doc :: element where
  "example_doc =
     Element ''html'' [] None
       [Element ''body'' [] None
          [Element ''img'' [(''src'', ''a.png'')] None [] None,
           Element ''p'' [] (Some ''text'')
             [Element ''img'' [(''alt'', ''none'')] None [] None,
              Element ''img'' [(''src'', ''b.png'')] None [] None] None,
           Element ''img'' [(''src'', ''a.png''), (''alt'', ''again'')] None [] None] None] None"

fun render :: "element \<Rightarrow> string" where
  \<open>render (Element t a tx cs tx') =
     ''<'' @ t @ concat (map (\<lambda>(k, v). '' '' @ k @ ''="'' @ v @ ''"'') a) @ ''>''
     @ (case tx of None \<Rightarrow> [] | Some x \<Rightarrow> x) @ concat (map render cs) @ ''</'' @ t @ ''>''
     @ (case tx' of None \<Rightarrow> [] | Some x \<Rightarrow> x)\<close>

definition example_env :: env where
  "example_env =
     \<lparr>html_parse = (\<lambda>blank s. if s = [] then Inr None else Inr (Some example_doc)),
      tostring = (\<lambda>dt pretty root.
        case root of
          None \<Rightarrow> Inl (TypeError ''Type 'NoneType' cannot be serialized.'')
        | Some r \<Rightarrow> Inr (render r)),
      http_get = (\<lambda>sent u.
        if u = ''http://notes.example/a.png'' then Inr [137, 80, 78, 71]
        else Inl (RequestException ''404 Client Error'')),
      urljoin = (\<lambda>b u. Inr (''http://notes.example/'' @ u)),
      netloc = (\<lambda>u. Inr ''notes.example''),
      md5_hexdigest = (\<lambda>u. ''0cc175b9c0f1b6a831c399e269772661''),
      imghdr_what = (\<lambda>d. if take 4 d = [137, 80, 78, 71] then Some ''png'' else None),
      slugify = map (\<lambda>c. if c = CHR '' '' then CHR ''-'' else lower c),
      feedparser_parse = (\<lambda>u. Inr example_feed),
      fetch_url = (\<lambda>u. Inr None),
      extract_content = (\<lambda>d. Inr None),
      write_epub = (\<lambda>p b. Inr ())\<rparr>"

text \<open>
  The same environment with a parser that raises for the empty string, as lxml's
  \<^verbatim>\<open>XMLSyntaxError\<close>, which is not a \<^verbatim>\<open>ParserError\<close>.
\<close>

definition raising_env :: env where
  "raising_env =
     example_env\<lparr>html_parse := (\<lambda>blank s.
        if s = [] then Inl (OtherError ''Document is empty'') else Inr (Some example_doc))\<rparr>"


definition example_metadata :: FeedMetadata where
  "example_metadata =
     \<lparr>title = ''Field Notes'', link = ''http://notes.example/'',
      description = ''Notes from the field''\<rparr>"

definition example_creator :: creator where
  "example_creator = EPUBCreator example_metadata"

definition example_base :: string where
  "example_base = ''http://notes.example/1''"

text \<open>The file name of the one image that can be fetched.\<close>

definition example_name :: string where
  "example_name = ''images/i0cc175b9c0f1b6a831c399e269772661.png''"

text \<open>The items of the first two entries of the example feed.\<close>

definition news1 :: FeedItem where
  "news1 = \<lparr>item_title = ''News'', item_link = ''http://notes.example/1'',
     item_published = ''2024'', item_content = None\<rparr>"

definition news2 :: FeedItem where
  "news2 = \<lparr>item_title = ''News'', item_link = ''http://notes.example/2'',
     item_published = ''2024'', item_content = None\<rparr>"

section \<open>Properties\<close>

subsection \<open>Feed items and the limit\<close>

lemma feed_item_entry_of: "feed_item e = Inr i \<Longrightarrow> entry_of i = e"
  by (cases e) (auto simp: feed_item_def entry_of_def split: option.splits)

lemma feed_items_entry_of: "feed_items es = Inr its \<Longrightarrow> map entry_of its = es"
proof (induction es arbitrary: its)
  case Nil
  then show ?case by simp
next
  case (Cons e es)
  then show ?case
    by (auto split: sum.splits simp: feed_item_entry_of)
qed

text \<open>
  C9. When the limit given to \<^verbatim>\<open>get_feed_items\<close> is \<^verbatim>\<open>None\<close> or 0, the entries are
  not truncated: the items are made from all the entries of the feed, and when the
  call returns, it returns one item for every entry, in the order of the feed.
\<close>

theorem get_feed_items_falsy_limit:
  assumes "limit = None \<or> limit = Some 0"
    and "feedparser_parse E feed_url = Inr d"
  shows "get_feed_items E feed_url limit = feed_items (entries d) \<and>
         (\<forall>its. get_feed_items E feed_url limit = Inr its \<longrightarrow> map entry_of its = entries d)"
  using assms by (auto simp: get_feed_items_def limit_entries_def feed_items_entry_of)

theorem get_feed_items_falsy_limit_witness:
  "feedparser_parse example_env ''http://notes.example/feed'' = Inr example_feed \<and>
   length (entries example_feed) = 3 \<and>
   get_feed_items example_env ''http://notes.example/feed'' (Some 0) =
     feed_items (entries example_feed) \<and>
   (case get_feed_items example_env ''http://notes.example/feed'' (Some 0) of
      Inl e \<Rightarrow> False
    | Inr its \<Rightarrow> length its = 3 \<and> map entry_of its = entries example_feed)"
proof -
  have l: "Some (0::int) = None \<or> Some (0::int) = Some 0"
    by simp
  have p: "feedparser_parse example_env ''http://notes.example/feed'' = Inr example_feed"
    by (simp add: example_env_def)
  from get_feed_items_falsy_limit [OF l p] p show ?thesis
    by (simp add: example_feed_def example_entry_def feed_item_def entry_of_def)
qed

subsection \<open>The evaluation of the examples\<close>

lemmas example_defs = example_env_def example_creator_def example_base_def example_name_def
  EPUBCreator_def example_metadata_def initialize_book_def EpubBook_new_def
  localize_img_def download_image_def download_image_try_def get_image_info_def type_map_def
  add_item_def Let_def

subsection \<open>\<^verbatim>\<open>_download_image\<close>\<close>

lemma download_image_urljoin_fails:
  "urljoin E base_url img_url = Inl e \<Longrightarrow> download_image E img_url base_url s = (Inr (None, None), s)"
  by (simp add: download_image_def download_image_try_def)

lemma download_image_cached:
  "urljoin E base_url img_url = Inr u \<Longrightarrow> downloaded_images s u = Some (f, d) \<Longrightarrow>
   download_image E img_url base_url s = (Inr (Some f, Some d), s)"
  by (simp add: download_image_def download_image_try_def)

lemma download_image_request_fails:
  "urljoin E base_url img_url = Inr u \<Longrightarrow> downloaded_images s u = None \<Longrightarrow>
   http_get E (requests s) u = Inl e \<Longrightarrow>
   download_image E img_url base_url s = (Inr (None, None), s\<lparr>requests := requests s @ [(u, False)]\<rparr>)"
  by (simp add: download_image_def download_image_try_def)

lemma download_image_fetches_explicit:
  assumes "urljoin E base_url img_url = Inr u" "downloaded_images s u = None"
    and "http_get E (requests s) u = Inr image_data"
    and "f = ''images/'' @ (''i'' @ md5_hexdigest E u) @ fst (get_image_info E image_data)"
    and "img = \<lparr>uid = ''i'' @ md5_hexdigest E u, item_file_name = f,
           media_type = snd (get_image_info E image_data), item_data = image_data\<rparr>"
  shows "download_image E img_url base_url s =
       (Inr (Some f, Some image_data),
        s\<lparr>requests := requests s @ [(u, True)],
          downloaded_images := (downloaded_images s)(u \<mapsto> (f, image_data)),
          book := add_item (book s) (Image img)\<rparr>)"
  using assms
  by (cases "get_image_info E image_data") (simp add: download_image_def download_image_try_def Let_def)

lemma download_image_fetches:
  assumes "urljoin E base_url img_url = Inr u" "downloaded_images s u = None"
    and "http_get E (requests s) u = Inr image_data"
  shows "\<exists>f img. f \<noteq> [] \<and> item_file_name img = f \<and>
     download_image E img_url base_url s =
       (Inr (Some f, Some image_data),
        s\<lparr>requests := requests s @ [(u, True)],
          downloaded_images := (downloaded_images s)(u \<mapsto> (f, image_data)),
          book := add_item (book s) (Image img)\<rparr>)"
proof -
  define f where "f = ''images/'' @ (''i'' @ md5_hexdigest E u) @ fst (get_image_info E image_data)"
  define img where "img = \<lparr>uid = ''i'' @ md5_hexdigest E u, item_file_name = f,
           media_type = snd (get_image_info E image_data), item_data = image_data\<rparr>"
  have "f \<noteq> []" by (simp add: f_def)
  moreover have "item_file_name img = f" by (simp add: img_def)
  ultimately show ?thesis
    using download_image_fetches_explicit [OF assms f_def img_def] by blast
qed

lemma download_image_returns: "\<exists>r s'. download_image E img_url base_url s = (Inr r, s')"
  by (auto simp: download_image_def split: prod.splits sum.splits)

lemma fetched_append [simp]:
  "fetched (s\<lparr>requests := requests s @ [(u, ok)]\<rparr>) = fetched s @ (if ok then [u] else [])"
  by (simp add: fetched_def)

lemma images_add_item_Image: "images (add_item b (Image img)) = images b @ [img]"
  by (simp add: images_def add_item_def)

lemma cache_ok_download_image:
  assumes "cache_ok s"
  shows "cache_ok (snd (download_image E img_url base_url s))"
proof (cases "urljoin E base_url img_url")
  case (Inl e)
  with assms show ?thesis by (simp add: download_image_urljoin_fails)
next
  case (Inr u)
  show ?thesis
  proof (cases "downloaded_images s u")
    case (Some r)
    with Inr assms show ?thesis by (cases r) (simp add: download_image_cached)
  next
    case None
    show ?thesis
    proof (cases "http_get E (requests s) u")
      case (Inl e)
      with Inr None assms show ?thesis
        by (simp add: download_image_request_fails cache_ok_def cached_name_def fetched_def)
    next
      case (Inr image_data)
      from download_image_fetches [OF \<open>urljoin E base_url img_url = Inr u\<close> None Inr]
      obtain f img where f: "f \<noteq> []" "item_file_name img = f"
        and dl: "download_image E img_url base_url s =
          (Inr (Some f, Some image_data),
           s\<lparr>requests := requests s @ [(u, True)],
             downloaded_images := (downloaded_images s)(u \<mapsto> (f, image_data)),
             book := add_item (book s) (Image img)\<rparr>)"
        by blast
      from None assms have notin: "u \<notin> set (fetched s)"
        by (auto simp: cache_ok_def)
      let ?s' = "s\<lparr>requests := requests s @ [(u, True)],
             downloaded_images := (downloaded_images s)(u \<mapsto> (f, image_data)),
             book := add_item (book s) (Image img)\<rparr>"
      have fs: "fetched ?s' = fetched s @ [u]"
        by (simp add: fetched_def)
      have cu: "cached_name ?s' u = f"
        by (simp add: cached_name_def)
      have same: "map (cached_name ?s') (fetched s) = map (cached_name s) (fetched s)"
        using notin by (auto simp: cached_name_def)
      have d: "distinct (fetched ?s')"
        using assms notin by (simp add: fs cache_ok_def)
      have dm: "set (fetched ?s') = dom (downloaded_images ?s')"
        using assms by (auto simp: fs cache_ok_def)
      have im: "map item_file_name (images (book ?s')) = map (cached_name ?s') (fetched ?s')"
        using assms f by (simp add: fs cu same images_add_item_Image cache_ok_def)
      have ne: "\<forall>v \<in> dom (downloaded_images ?s'). cached_name ?s' v \<noteq> []"
        using assms f by (auto simp: cache_ok_def cached_name_def)
      show ?thesis
        unfolding dl snd_conv using d dm im ne by (simp only: cache_ok_def simp_thms)
    qed
  qed
qed



subsection \<open>Sequences of downloads\<close>

lemma image_downloads_append:
  "image_downloads E (xs @ ys) s = image_downloads E ys (image_downloads E xs s)"
  by (induction E xs s rule: image_downloads.induct) simp_all

lemma cache_ok_image_downloads: "cache_ok s \<Longrightarrow> cache_ok (image_downloads E calls s)"
  by (induction E calls s rule: image_downloads.induct) (simp_all add: cache_ok_download_image)








subsection \<open>The loop of \<^verbatim>\<open>_process_images\<close>\<close>






text \<open>The state changes through calls of \<^verbatim>\<open>_download_image\<close> only, and the loop never raises.\<close>

lemma localize_img_downloads:
  "\<exists>calls a'. localize_img E base_url a s = (Inr a', image_downloads E calls s)"
proof (cases "map_of a ''src''")
  case None
  then have "localize_img E base_url a s = (Inr a, image_downloads E [] s)"
    by (simp add: localize_img_def)
  then show ?thesis by blast
next
  case (Some src)
  show ?thesis
  proof (cases "src = []")
    case True
    with Some have "localize_img E base_url a s = (Inr a, image_downloads E [] s)"
      by (simp add: localize_img_def)
    then show ?thesis by blast
  next
    case False
    from download_image_returns [of E src base_url s]
    obtain r s' where d: "download_image E src base_url s = (Inr r, s')" by blast
    then have "\<exists>a'. localize_img E base_url a s = (Inr a', image_downloads E [(src, base_url)] s)"
      using Some False by (cases r) (auto simp: localize_img_def split: option.splits)
    then show ?thesis by blast
  qed
qed

lemma localize_tree_downloads:
  "\<exists>calls t'. localize_tree E base_url t s = (Inr t', image_downloads E calls s)"
  and localize_forest_downloads:
  "\<exists>calls ts'. localize_forest E base_url ts s = (Inr ts', image_downloads E calls s)"
proof (induction E base_url t s and E base_url ts s rule: localize_tree_localize_forest.induct)
  case (1 E base_url t a tx cs tx' s)
  obtain c1 a' where a: "(if t = ''img'' then localize_img E base_url a s else (Inr a, s))
      = (Inr a', image_downloads E c1 s)"
  proof (cases "t = ''img''")
    case True
    with localize_img_downloads [of E base_url a s] that show ?thesis by auto
  next
    case False
    with that [of a "[]"] show ?thesis by simp
  qed
  from "1" [OF a [symmetric] refl] obtain c2 cs' where
    "localize_forest E base_url cs (image_downloads E c1 s) = (Inr cs', image_downloads E c2 (image_downloads E c1 s))"
    by blast
  with a have "localize_tree E base_url (Element t a tx cs tx') s =
     (Inr (Element t a' tx cs' tx'), image_downloads E (c1 @ c2) s)"
    by (simp add: image_downloads_append)
  then show ?case by blast
next
  case (2 E base_url s)
  have "localize_forest E base_url [] s = (Inr [], image_downloads E [] s)" by simp
  then show ?case by blast
next
  case (3 E base_url c cs s)
  from "3.IH"(1) obtain c1 c' where
    c: "localize_tree E base_url c s = (Inr c', image_downloads E c1 s)" by blast
  from "3.IH"(2) [OF c [symmetric] refl] obtain c2 cs' where
    "localize_forest E base_url cs (image_downloads E c1 s) = (Inr cs', image_downloads E c2 (image_downloads E c1 s))"
    by blast
  with c have "localize_forest E base_url (c # cs) s = (Inr (c' # cs'), image_downloads E (c1 @ c2) s)"
    by (simp add: image_downloads_append)
  then show ?case by blast
qed

lemma process_images_downloads:
  "\<exists>calls out. process_images E content base_url s = (Inr out, image_downloads E calls s)"
proof (cases "html_parse E False content")
  case (Inl e)
  then have "process_images E content base_url s = (Inr content, image_downloads E [] s)"
    by (simp add: process_images_def process_images_try_def)
  then show ?thesis by blast
next
  case (Inr root)
  show ?thesis
  proof (cases root)
    case None
    with Inr have "process_images E content base_url s = (Inr content, image_downloads E [] s)"
      by (simp add: process_images_def process_images_try_def)
    then show ?thesis by blast
  next
    case (Some t)
    from localize_tree_downloads [of E base_url t s] obtain calls t' where
      "localize_tree E base_url t s = (Inr t', image_downloads E calls s)" by blast
    with Inr Some have "\<exists>out. process_images E content base_url s = (Inr out, image_downloads E calls s)"
      by (cases "tostring E None False (Some t')") (simp_all add: process_images_def process_images_try_def)
    then show ?thesis by blast
  qed
qed

lemma create_chapter_downloads:
  "\<exists>calls. snd (create_chapter E item s) = image_downloads E calls s"
proof -
  have stop: "\<exists>calls. s = image_downloads E calls s"
    using image_downloads.simps(1) [of E s] by metis
  show ?thesis
  proof (cases "fetch_url E (item_link item)")
    case (Inl e)
    with stop show ?thesis by (simp add: create_chapter_def)
  next
    case d: (Inr d)
    show ?thesis
    proof (cases "extract_content E d")
      case (Inl e)
      with d stop show ?thesis by (simp add: create_chapter_def)
    next
      case x: (Inr x)
      show ?thesis
      proof (cases "convert E (chapter_markup item x)")
        case (Inl e)
        with d x stop show ?thesis by (simp add: create_chapter_def)
      next
        case (Inr converted)
        from process_images_downloads [of E converted "item_link item" s] obtain calls out where
          "process_images E converted (item_link item) s = (Inr out, image_downloads E calls s)"
          by blast
        with d x Inr have "snd (create_chapter E item s) = image_downloads E calls s"
          by (simp add: create_chapter_def)
        then show ?thesis by blast
      qed
    qed
  qed
qed

lemma cache_ok_create_chapter: "cache_ok s \<Longrightarrow> cache_ok (snd (create_chapter E item s))"
  using create_chapter_downloads [of E item s] by (auto simp: cache_ok_image_downloads)

lemma cache_ok_create_chapters: "cache_ok s \<Longrightarrow> cache_ok (snd (create_chapters E its s))"
proof (induction its arbitrary: s)
  case Nil
  then show ?case by simp
next
  case (Cons item its)
  from Cons.prems have c: "cache_ok (snd (create_chapter E item s))"
    by (rule cache_ok_create_chapter)
  show ?case
  proof (cases "create_chapter E item s")
    case (Pair r s1)
    with c have s1: "cache_ok s1" by simp
    show ?thesis
    proof (cases r)
      case (Inl e)
      with Pair s1 show ?thesis by simp
    next
      case (Inr ch)
      from Cons.IH [OF s1] Pair Inr show ?thesis
        by (auto split: prod.splits sum.splits)
    qed
  qed
qed

subsection \<open>The claims on the images\<close>




text \<open>
  C10. A call of \<^verbatim>\<open>_download_image\<close> that fails leaves \<^verbatim>\<open>downloaded_images\<close> and the
  book as they were. When the URL could be resolved, the failed request is the only
  change and the URL is still not in the dictionary; and in every state in which
  it is not, a reference that resolves to this URL sends a new request.
\<close>

theorem failed_download_not_cached:
  assumes "download_image E src1 base1 s = (Inr (None, x), s')"
  shows "downloaded_images s' = downloaded_images s \<and> book s' = book s \<and>
     (\<forall>u. urljoin E base1 src1 = Inr u \<longrightarrow>
        requests s' = requests s @ [(u, False)] \<and> downloaded_images s' u = None \<and>
        (\<forall>src2 base2 t. urljoin E base2 src2 = Inr u \<longrightarrow> downloaded_images t u = None \<longrightarrow>
           (\<exists>ok. requests (snd (download_image E src2 base2 t)) = requests t @ [(u, ok)])))"
proof -
  have again: "\<exists>ok. requests (snd (download_image E src2 base2 t)) = requests t @ [(u, ok)]"
    if j: "urljoin E base2 src2 = Inr u" and n: "downloaded_images t u = None"
    for src2 base2 t u
  proof (cases "http_get E (requests t) u")
    case (Inl e)
    from download_image_request_fails [OF j n Inl]
    have "requests (snd (download_image E src2 base2 t)) = requests t @ [(u, False)]"
      by simp
    then show ?thesis by blast
  next
    case (Inr image_data)
    from download_image_fetches [OF j n Inr] show ?thesis by auto
  qed
  show ?thesis
  proof (cases "urljoin E base1 src1")
    case (Inl e)
    with assms show ?thesis by (simp add: download_image_urljoin_fails)
  next
    case (Inr u)
    show ?thesis
    proof (cases "downloaded_images s u")
      case (Some r)
      with Inr assms show ?thesis by (cases r) (simp add: download_image_cached)
    next
      case None
      show ?thesis
      proof (cases "http_get E (requests s) u")
        case (Inl e)
        with \<open>urljoin E base1 src1 = Inr u\<close> None assms
        have s': "s' = s\<lparr>requests := requests s @ [(u, False)]\<rparr>"
          by (simp add: download_image_request_fails)
        with None \<open>urljoin E base1 src1 = Inr u\<close> again show ?thesis by auto
      next
        case (Inr image_data)
        from download_image_fetches [OF \<open>urljoin E base1 src1 = Inr u\<close> None Inr] assms
        show ?thesis by auto
      qed
    qed
  qed
qed

theorem failed_download_not_cached_witness:
  "fst (download_image example_env ''b.png'' example_base example_creator) = Inr (None, None) \<and>
   downloaded_images (snd (download_image example_env ''b.png'' example_base example_creator))
     = downloaded_images example_creator \<and>
   book (snd (download_image example_env ''b.png'' example_base example_creator))
     = book example_creator \<and>
   urljoin example_env example_base ''b.png'' = Inr ''http://notes.example/b.png'' \<and>
   urljoin example_env ''http://notes.example/2'' ''b.png'' = Inr ''http://notes.example/b.png'' \<and>
   requests (snd (download_image example_env ''b.png'' example_base example_creator))
     = [(''http://notes.example/b.png'', False)] \<and>
   (\<exists>ok. requests (snd (download_image example_env ''b.png'' ''http://notes.example/2''
        (snd (download_image example_env ''b.png'' example_base example_creator))))
     = [(''http://notes.example/b.png'', False), (''http://notes.example/b.png'', ok)])"
proof -
  let ?d = "download_image example_env ''b.png'' example_base example_creator"
  let ?u = "''http://notes.example/b.png''"
  have f: "fst ?d = Inr (None, None)"
    by (simp add: example_defs)
  then have d: "?d = (Inr (None, None), snd ?d)"
    by (simp add: prod_eq_iff)
  have u: "urljoin example_env example_base ''b.png'' = Inr ?u"
    "urljoin example_env ''http://notes.example/2'' ''b.png'' = Inr ?u"
    by (simp_all add: example_env_def)
  have r: "requests example_creator = []"
    by (simp add: example_creator_def EPUBCreator_def)
  note c = failed_download_not_cached [OF d]
  from c have k: "downloaded_images (snd ?d) = downloaded_images example_creator"
    "book (snd ?d) = book example_creator"
    by simp_all
  from c u(1) have q1: "requests (snd ?d) = requests example_creator @ [(?u, False)]"
    and n: "downloaded_images (snd ?d) ?u = None"
    and all: "\<forall>src2 base2 t. urljoin example_env base2 src2 = Inr ?u \<longrightarrow>
       downloaded_images t ?u = None \<longrightarrow>
       (\<exists>ok. requests (snd (download_image example_env src2 base2 t)) = requests t @ [(?u, ok)])"
    by blast+
  from all u(2) n obtain ok where
    q2: "requests (snd (download_image example_env ''b.png'' ''http://notes.example/2'' (snd ?d)))
       = requests (snd ?d) @ [(?u, ok)]"
    by blast
  from q1 r have q3: "requests (snd ?d) = [(?u, False)]"
    by simp
  from q2 q3 have "requests (snd (download_image example_env ''b.png'' ''http://notes.example/2'' (snd ?d)))
       = [(?u, False), (?u, ok)]"
    by simp
  with k f u q3 show ?thesis
    by blast
qed

text \<open>
  C3. \<^verbatim>\<open>_process_images\<close> and \<^verbatim>\<open>_download_image\<close> return for every input and every
  behaviour of the libraries; no exception leaves them. When the body of
  \<^verbatim>\<open>_process_images\<close> raises, the content is returned as it was given, and an image
  whose download fails keeps its attributes, so its \<^verbatim>\<open>src\<close>.
\<close>

theorem process_images_never_raises:
  "(\<exists>out s'. process_images E content base_url s = (Inr out, s')) \<and>
   (\<exists>r s'. download_image E img_url base_url s = (Inr r, s')) \<and>
   (\<forall>e s'. process_images_try E content base_url s = (Inl e, s') \<longrightarrow>
      process_images E content base_url s = (Inr content, s')) \<and>
   (\<forall>src x s'. map_of a ''src'' = Some src \<longrightarrow>
      download_image E src base_url s = (Inr (None, x), s') \<longrightarrow>
      fst (localize_img E base_url a s) = Inr a)"
proof -
  from process_images_downloads [of E content base_url s]
  have "\<exists>out s'. process_images E content base_url s = (Inr out, s')" by blast
  moreover note download_image_returns [of E img_url base_url s]
  moreover have "\<forall>e s'. process_images_try E content base_url s = (Inl e, s') \<longrightarrow>
      process_images E content base_url s = (Inr content, s')"
    by (simp add: process_images_def)
  moreover have "\<forall>src x s'. map_of a ''src'' = Some src \<longrightarrow>
      download_image E src base_url s = (Inr (None, x), s') \<longrightarrow>
      fst (localize_img E base_url a s) = Inr a"
    by (auto simp: localize_img_def)
  ultimately show ?thesis by blast
qed

theorem process_images_never_raises_witness:
  "fst (process_images example_env ''<p>text</p>'' example_base example_creator)
     = Inr (render (Element ''html'' [] None
       [Element ''body'' [] None
          [Element ''img'' [(''src'', example_name)] None [] None,
           Element ''p'' [] (Some ''text'')
             [Element ''img'' [(''alt'', ''none'')] None [] None,
              Element ''img'' [(''src'', ''b.png'')] None [] None] None,
           Element ''img'' [(''src'', example_name), (''alt'', ''again'')] None [] None] None] None)) \<and>
   fst (download_image example_env ''b.png'' example_base example_creator) = Inr (None, None) \<and>
   fst (localize_img example_env example_base [(''src'', ''b.png'')] example_creator)
     = Inr [(''src'', ''b.png'')] \<and>
   fst (process_images_try example_env [] example_base example_creator) = Inl (AttributeError ''xpath'') \<and>
   fst (process_images example_env [] example_base example_creator) = Inr []"
proof -
  let ?d = "download_image example_env ''b.png'' example_base example_creator"
  let ?t = "process_images_try example_env [] example_base example_creator"
  have f: "fst ?d = Inr (None, None)"
    by (simp add: example_defs)
  then have d: "?d = (Inr (None, None), snd ?d)"
    by (simp add: prod_eq_iff)
  have ft: "fst ?t = Inl (AttributeError ''xpath'')"
    by (simp add: process_images_try_def example_env_def)
  then have t: "?t = (Inl (AttributeError ''xpath''), snd ?t)"
    by (simp add: prod_eq_iff)
  have m: "map_of [(''src'', ''b.png'')] ''src'' = Some ''b.png''"
    by simp
  have p: "fst (process_images example_env ''<p>text</p>'' example_base example_creator)
     = Inr (render (Element ''html'' [] None
       [Element ''body'' [] None
          [Element ''img'' [(''src'', example_name)] None [] None,
           Element ''p'' [] (Some ''text'')
             [Element ''img'' [(''alt'', ''none'')] None [] None,
              Element ''img'' [(''src'', ''b.png'')] None [] None] None,
           Element ''img'' [(''src'', example_name), (''alt'', ''again'')] None [] None] None] None))"
    by (simp add: process_images_def process_images_try_def example_doc_def example_defs)
  note c = process_images_never_raises [of example_env "[]" example_base example_creator
      "''b.png''" "[(''src'', ''b.png'')]"]
  from c d m have l: "fst (localize_img example_env example_base [(''src'', ''b.png'')] example_creator)
     = Inr [(''src'', ''b.png'')]"
    by blast
  from c t have "process_images example_env [] example_base example_creator = (Inr [], snd ?t)"
    by blast
  then have e: "fst (process_images example_env [] example_base example_creator) = Inr []"
    by simp
  from p f l ft e show ?thesis
    by blast
qed

subsection \<open>The claims on \<^verbatim>\<open>convert\<close>\<close>

text \<open>
  C4, as amended. \<^verbatim>\<open>convert\<close> has no check of its own: it returns a document exactly
  when lxml's parser and serialiser both return, and every exception of theirs
  leaves it as a \<^verbatim>\<open>ValueError\<close>.
\<close>

theorem convert_rejects_with_parser:
  "((\<exists>x. convert E html_string = Inr x) \<longleftrightarrow>
      (\<exists>root x. html_parse E True html_string = Inr root \<and>
         tostring E (Some doctype) True root = Inr x)) \<and>
   (\<forall>e. convert E html_string = Inl e \<longrightarrow> (\<exists>m. e = ValueError m))"
proof -
  have v: "\<exists>m. convert_handler e = ValueError m" for e
    by (cases e) simp_all
  show ?thesis
    using v by (auto simp: convert_def split: sum.splits)
qed

theorem convert_rejects_with_parser_witness:
  "html_parse example_env True ''<p>text</p>'' = Inr (Some example_doc) \<and>
   tostring example_env (Some doctype) True (Some example_doc) = Inr (render example_doc) \<and>
   convert example_env ''<p>text</p>'' = Inr (rewrite_xhtml (render example_doc)) \<and>
   html_parse example_env True [] = Inr None \<and>
   tostring example_env (Some doctype) True None
     = Inl (TypeError ''Type 'NoneType' cannot be serialized.'') \<and>
   (\<exists>m. convert example_env [] = Inl (ValueError m))"
proof -
  have p: "html_parse example_env True ''<p>text</p>'' = Inr (Some example_doc)"
    "tostring example_env (Some doctype) True (Some example_doc) = Inr (render example_doc)"
    "html_parse example_env True [] = Inr None"
    "tostring example_env (Some doctype) True None
       = Inl (TypeError ''Type 'NoneType' cannot be serialized.'')"
    by (simp_all add: example_env_def)
  have c: "convert example_env ''<p>text</p>'' = Inr (rewrite_xhtml (render example_doc))"
    by (simp add: convert_def p)
  from p(3,4) have "\<not> (\<exists>root x. html_parse example_env True [] = Inr root \<and>
         tostring example_env (Some doctype) True root = Inr x)"
    by simp
  with convert_rejects_with_parser [of example_env "[]"] obtain e where
    "convert example_env [] = Inl e" by (cases "convert example_env []") auto
  with convert_rejects_with_parser [of example_env "[]"] have
    x: "\<exists>m. convert example_env [] = Inl (ValueError m)" by auto
  show ?thesis
    by (intro conjI) (rule p c x)+
qed

text \<open>
  The claim as it is written says that the empty string is turned into a minimal
  document. lxml's parser finds no root element in the empty string: it returns a
  tree without root, on which \<^verbatim>\<open>etree.tostring\<close> raises \<^verbatim>\<open>TypeError\<close>, as in
  \<open>example_env\<close>, or it raises itself, as in \<open>raising_env\<close>. Either way \<^verbatim>\<open>convert\<close>
  raises \<^verbatim>\<open>ValueError\<close>.
\<close>

theorem convert_rejects_empty_string:
  "convert example_env [] =
     Inl (ValueError ''Error converting to XHTML: Type 'NoneType' cannot be serialized.'') \<and>
   convert raising_env [] =
     Inl (ValueError ''Error converting to XHTML: Document is empty'')"
  by (simp add: convert_def example_env_def raising_env_def)

text \<open>
  An opening tag of one of the six names, whatever its attributes are, gets the
  class in front of them.
\<close>

lemma match_open_attributes:
  assumes "CHR ''>'' \<notin> set g"
  shows \<open>match_open t (''<'' @ t @ g @ ''>'' @ rest) = Some (''<div class="'' @ t @ ''"'' @ g @ ''>'', rest)\<close>
proof -
  from assms have "takeWhile (\<lambda>x. x \<noteq> CHR ''>'') (g @ CHR ''>'' # rest) = g"
    by (induction g) auto
  moreover from assms have "dropWhile (\<lambda>x. x \<noteq> CHR ''>'') (g @ CHR ''>'' # rest) = CHR ''>'' # rest"
    by (induction g) auto
  ultimately show ?thesis
    by (simp add: match_open_def Let_def)
qed

text \<open>
  C8. The claim says that the output is well-formed and that each of the six tags
  becomes a \<^verbatim>\<open>div\<close> with the tag name as class. The substitution of line 74 puts
  \<^verbatim>\<open>class="article"\<close> in front of the attributes the tag has: an element that has a
  class already leaves with two \<^verbatim>\<open>class\<close> attributes, which is not well-formed. The
  pattern also matches a longer tag name that begins with one of the six, and the
  closing tag of such an element is not rewritten. The arguments hold the two
  elements as lxml serialises them; the document type and the line breaks of the
  whole document play no part.
\<close>

theorem rewrite_xhtml_repeats_class:
  \<open>rewrite_xhtml ''<html><body><article class="lead">Text</article></body></html>''
     = ''<html><body><div class="article" class="lead">Text</div></body></html>'' \<and>
   rewrite_xhtml ''<html><body><navigation>Links</navigation></body></html>''
     = ''<html><body><div class="nav"igation>Links</navigation></body></html>''\<close>
  by code_simp

text \<open>
  C1. The claim says that converting the output of \<^verbatim>\<open>convert\<close> changes nothing. lxml
  keeps a comment as it is, and the substitution of line 69 also rewrites the text
  of a comment: each pass puts one more space in front of \<^verbatim>\<open>/>\<close>. The first string
  serialises \<^verbatim>\<open><p>a</p><!-- <br/> -->\<close>; the rewriting of the first pass gives
  the second, and the rewriting of the second pass changes it again.
\<close>

theorem rewrite_xhtml_not_idempotent:
  \<open>rewrite_xhtml ''<html><body><p>a</p><!-- <br/> --></body></html>''
     = ''<html><body><p>a</p><!-- <br /> --></body></html>'' \<and>
   rewrite_xhtml ''<html><body><p>a</p><!-- <br /> --></body></html>''
     = ''<html><body><p>a</p><!-- <br  /> --></body></html>''\<close>
  by code_simp

subsection \<open>The claims on the chapters and the document\<close>

text \<open>
  When nothing was extracted, the markup that is converted is the header block
  followed by the placeholder.
\<close>

lemma replace_placeholder: "replace placeholder ''<graphic'' ''<img'' = placeholder"
  by code_simp

lemma starts_with_block_placeholder: "starts_with_block placeholder"
  by code_simp

lemma chapter_markup_None: "chapter_markup item None = header_box item @ placeholder"
  by (simp add: chapter_markup_def replace_placeholder starts_with_block_placeholder)

lemma create_chapter_title:
  "create_chapter E item s = (Inr chapter, s') \<Longrightarrow>
   html_title chapter = item_title item \<and> file_name chapter = slugify E (item_title item) @ ''.xhtml''"
  by (auto simp: create_chapter_def split: sum.splits prod.splits)

lemma create_chapters_titles:
  "create_chapters E its s = (Inr chapters, s') \<Longrightarrow>
   map html_title chapters = map item_title its"
proof (induction its arbitrary: s chapters)
  case Nil
  then show ?case by simp
next
  case (Cons item its)
  then show ?case
    by (auto split: sum.splits prod.splits dest: create_chapter_title)
qed

lemma create_cover_page_file_name:
  "create_cover_page E s = (Inr cover, s') \<Longrightarrow> file_name cover = ''cover.xhtml''"
  by (auto simp: create_cover_page_def create_cover_page_try_def cover_page_def Let_def
      split: sum.splits prod.splits)

lemma save_spine:
  "save E chapters output_path s = (Inr r, s') \<Longrightarrow>
   \<exists>cover. spine (book s') = cover # chapters \<and> file_name cover = ''cover.xhtml''"
  by (auto simp: save_def Let_def split: sum.splits prod.splits dest: create_cover_page_file_name)

lemma entry_title_entry_of: "entry_title (entry_of i) = Some (item_title i)"
  by (simp add: entry_of_def)

lemma feed_items_titles:
  assumes "feed_items es = Inr its"
  shows "map (Some \<circ> item_title) its = map entry_title es"
proof -
  from feed_items_entry_of [OF assms] have "map entry_title (map entry_of its) = map entry_title es"
    by simp
  then show ?thesis by (simp add: comp_def entry_title_entry_of)
qed

text \<open>
  C5, as amended. The file name of a chapter is the slug of the item's title followed
  by \<^verbatim>\<open>.xhtml\<close>: it depends on the title alone, and the chapters of two items with
  the same title have the same file name.
\<close>

theorem file_name_from_title:
  assumes "create_chapter E a s = (Inr chapter_a, s')"
    and "create_chapter E b t = (Inr chapter_b, t')"
    and "item_title a = item_title b"
  shows "file_name chapter_a = slugify E (item_title a) @ ''.xhtml'' \<and>
         file_name chapter_b = file_name chapter_a"
  using assms create_chapter_title [of E a s chapter_a s'] create_chapter_title [of E b t chapter_b t']
  by simp

theorem file_name_from_title_witness:
  "item_title news1 = item_title news2 \<and>
   (\<exists>chapter_a s' chapter_b t'.
      create_chapter example_env news1 example_creator = (Inr chapter_a, s') \<and>
      create_chapter example_env news2 s' = (Inr chapter_b, t') \<and>
      file_name chapter_a = ''news.xhtml'' \<and>
      file_name chapter_b = file_name chapter_a)"
proof -
  let ?a = "create_chapter example_env news1 example_creator"
  let ?b = "create_chapter example_env news2 (snd ?a)"
  have t: "item_title news1 = item_title news2"
    by (simp add: news1_def news2_def)
  have "case fst ?a of Inl e \<Rightarrow> False | Inr r \<Rightarrow> True"
    by code_simp
  then obtain chapter_a where a: "?a = (Inr chapter_a, snd ?a)"
    by (auto simp: prod_eq_iff split: sum.splits)
  have "case fst ?b of Inl e \<Rightarrow> False | Inr r \<Rightarrow> True"
    by code_simp
  then obtain chapter_b where b: "?b = (Inr chapter_b, snd ?b)"
    by (auto simp: prod_eq_iff split: sum.splits)
  have n: "slugify example_env (item_title news1) @ ''.xhtml'' = ''news.xhtml''"
    by code_simp
  from file_name_from_title [OF a b t] n have
    x: "file_name chapter_a = ''news.xhtml''" "file_name chapter_b = file_name chapter_a"
    by simp_all
  show ?thesis
    by (intro conjI exI) (rule t a b x)+
qed

text \<open>
  The claim as it is written says that two items with the same title get distinct
  file names. The first two items of the example feed differ in their links and
  have the same title, and their chapters have the same file name.
\<close>

theorem same_title_same_file_name:
  "get_feed_items example_env ''http://notes.example/feed'' (Some 2) = Inr [news1, news2] \<and>
   news1 \<noteq> news2 \<and> item_title news1 = item_title news2 \<and>
   (case create_chapters example_env [news1, news2] example_creator of
      (Inl e, s) \<Rightarrow> False
    | (Inr chapters, s) \<Rightarrow> map file_name chapters = [''news.xhtml'', ''news.xhtml''])"
  by code_simp

text \<open>
  C6. When \<^verbatim>\<open>create_epub\<close> returns for a feed of \<open>N\<close> entries and a positive limit
  \<open>L\<close>, the spine of the book it has written is the cover followed by \<open>min N L\<close>
  chapters, and the chapters carry the titles of the first \<open>L\<close> entries of the feed,
  in the order of the feed.
\<close>

theorem chapters_in_feed_order:
  assumes "feedparser_parse E feed_url = Inr d"
    and "0 < item_limit"
    and "create_epub E feed_url item_limit = Inr (output_path, s)"
  shows "\<exists>cover chapters.
           spine (book s) = cover # chapters \<and>
           file_name cover = ''cover.xhtml'' \<and>
           length chapters = min (length (entries d)) (nat item_limit) \<and>
           map (Some \<circ> html_title) chapters = map entry_title (take (nat item_limit) (entries d))"
proof -
  from assms(1,2) have g: "get_feed_items E feed_url (Some item_limit)
      = feed_items (take (nat item_limit) (entries d))"
    by (simp add: get_feed_items_def limit_entries_def slice_to_def)
  from assms(3) obtain md its chapters s1 r where
    its: "get_feed_items E feed_url (Some item_limit) = Inr its"
    and ch: "create_chapters E its (EPUBCreator md) = (Inr chapters, s1)"
    and sv: "save E chapters (slugify E (title md) @ ''.epub'') s1 = (Inr r, s)"
    by (auto simp: create_epub_def Let_def split: sum.splits prod.splits)
  from its g have t: "map (Some \<circ> item_title) its = map entry_title (take (nat item_limit) (entries d))"
    by (simp add: feed_items_titles)
  from create_chapters_titles [OF ch] have c: "map html_title chapters = map item_title its" .
  then have "map (Some \<circ> html_title) chapters = map (Some \<circ> item_title) its"
    by (simp flip: map_map)
  with t have m: "map (Some \<circ> html_title) chapters = map entry_title (take (nat item_limit) (entries d))"
    by simp
  then have "length (map (Some \<circ> html_title) chapters) = length (map entry_title (take (nat item_limit) (entries d)))"
    by simp
  then have l: "length chapters = min (length (entries d)) (nat item_limit)"
    by simp
  from save_spine [OF sv] m l show ?thesis by blast
qed

theorem chapters_in_feed_order_witness:
  "feedparser_parse example_env ''http://notes.example/feed'' = Inr example_feed \<and>
   length (entries example_feed) = 3 \<and>
   (\<exists>output_path s cover chapters.
      create_epub example_env ''http://notes.example/feed'' 2 = Inr (output_path, s) \<and>
      spine (book s) = cover # chapters \<and>
      file_name cover = ''cover.xhtml'' \<and>
      length chapters = 2 \<and>
      map (Some \<circ> html_title) chapters = [Some ''News'', Some ''News''])"
proof -
  have p: "feedparser_parse example_env ''http://notes.example/feed'' = Inr example_feed"
    by (simp add: example_env_def)
  have l: "length (entries example_feed) = 3"
    by (simp add: example_feed_def)
  have "case create_epub example_env ''http://notes.example/feed'' 2 of Inl e \<Rightarrow> False | Inr r \<Rightarrow> True"
    by code_simp
  then obtain output_path s where
    c: "create_epub example_env ''http://notes.example/feed'' 2 = Inr (output_path, s)"
    by (auto split: sum.splits)
  have t: "map entry_title (take (nat 2) (entries example_feed)) = [Some ''News'', Some ''News'']"
    by (simp add: example_feed_def example_entry_def)
  from chapters_in_feed_order [OF p _ c] l t have
    "\<exists>cover chapters. spine (book s) = cover # chapters \<and> file_name cover = ''cover.xhtml'' \<and>
       length chapters = 2 \<and> map (Some \<circ> html_title) chapters = [Some ''News'', Some ''News'']"
    by simp
  then obtain cover chapters where
    x: "spine (book s) = cover # chapters" "file_name cover = ''cover.xhtml''"
      "length chapters = 2" "map (Some \<circ> html_title) chapters = [Some ''News'', Some ''News'']"
    by (elim exE conjE)
  show ?thesis
    by (intro conjI exI) (rule p l c x)+
qed

end
